theory Spec2Isabelle
  imports Complex_Main
begin

section \<open>Data model (types.ts)\<close>

text \<open>
  A TypeScript \<open>number\<close> is modelled as an exact \<^typ>\<open>real\<close>: the arithmetic of the
  source (\<open>+\<close>, \<open>-\<close>, \<open>*\<close>, \<open>/\<close>, \<open>Math.max\<close>) is read without rounding, and the
  literal \<open>0.1\<close> is the real number one tenth. Every statement below is therefore a
  statement of the source's formulas up to the rounding of IEEE doubles.
\<close>

record BoundingBox =
  ymin :: real
  xmin :: real
  ymax :: real
  xmax :: real

text \<open>The interface \<open>CropRect { x; y; size }\<close>; the fields carry the prefix \<open>crop_\<close>.\<close>

record CropRect =
  crop_x :: real
  crop_y :: real
  crop_size :: real

datatype AppState = IDLE | ANALYZING | CROPPING | EDITING | SUCCESS | ERROR

section \<open>Crop-rectangle derivation (utils/imageHelpers: calculateSmartCrop)\<close>

definition calculateSmartCrop :: "BoundingBox \<Rightarrow> real \<Rightarrow> real \<Rightarrow> CropRect" where
  "calculateSmartCrop box imgWidth imgHeight =
     (let rawYmin = (ymin box / 1000) * imgHeight;
          rawXmin = (xmin box / 1000) * imgWidth;
          rawYmax = (ymax box / 1000) * imgHeight;
          rawXmax = (xmax box / 1000) * imgWidth;
          width = rawXmax - rawXmin;
          height = rawYmax - rawYmin;
          centerX = rawXmin + width / 2;
          centerY = rawYmin + height / 2;
          paddingPercent = 0.1;
          baseSize = max width height;
          size = baseSize * (1 + paddingPercent);
          x = centerX - size / 2;
          y = centerY - size / 2
      in \<lparr>crop_x = x, crop_y = y, crop_size = size\<rparr>)"

text \<open>
  The pixel-space box of a normalized bounding box, in the words of the specification:
  each coordinate is \<open>value / 1000 * dimension\<close>, with the width for the x-axis fields and
  the height for the y-axis fields.
\<close>

definition pixelXmin :: "BoundingBox \<Rightarrow> real \<Rightarrow> real" where
  "pixelXmin b imgWidth = xmin b / 1000 * imgWidth"

definition pixelXmax :: "BoundingBox \<Rightarrow> real \<Rightarrow> real" where
  "pixelXmax b imgWidth = xmax b / 1000 * imgWidth"

definition pixelYmin :: "BoundingBox \<Rightarrow> real \<Rightarrow> real" where
  "pixelYmin b imgHeight = ymin b / 1000 * imgHeight"

definition pixelYmax :: "BoundingBox \<Rightarrow> real \<Rightarrow> real" where
  "pixelYmax b imgHeight = ymax b / 1000 * imgHeight"

definition pixelWidth :: "BoundingBox \<Rightarrow> real \<Rightarrow> real" where
  "pixelWidth b imgWidth = pixelXmax b imgWidth - pixelXmin b imgWidth"

definition pixelHeight :: "BoundingBox \<Rightarrow> real \<Rightarrow> real" where
  "pixelHeight b imgHeight = pixelYmax b imgHeight - pixelYmin b imgHeight"

definition pixelCenterX :: "BoundingBox \<Rightarrow> real \<Rightarrow> real" where
  "pixelCenterX b imgWidth = (pixelXmin b imgWidth + pixelXmax b imgWidth) / 2"

definition pixelCenterY :: "BoundingBox \<Rightarrow> real \<Rightarrow> real" where
  "pixelCenterY b imgHeight = (pixelYmin b imgHeight + pixelYmax b imgHeight) / 2"

text \<open>The center of a square crop rectangle \<open>[x, x + size] \<times> [y, y + size]\<close>.\<close>

definition centerX :: "CropRect \<Rightarrow> real" where
  "centerX r = crop_x r + crop_size r / 2"

definition centerY :: "CropRect \<Rightarrow> real" where
  "centerY r = crop_y r + crop_size r / 2"

section \<open>Detection results, errors, images and the 2D canvas\<close>

text \<open>
  \<open>GarmentDetails\<close> is the unchecked result of \<open>JSON.parse\<close>; the source reads
  \<open>details.textureBox || details.box\<close>, so a missing texture box is a value of the model.
\<close>

record GarmentDetails =
  box :: BoundingBox
  textureBox :: "BoundingBox option"
  texture :: string
  color :: string

text \<open>
  What the source throws or rejects with: an \<open>Error\<close> object, which has a message, or the
  error event that \<open>loadImage\<close> and \<open>fileToBase64\<close> reject with, which has none.
\<close>

datatype Thrown = Error string | RejectedEvent

fun message :: "Thrown \<Rightarrow> string option" where
  "message (Error m) = Some m"
| "message RejectedEvent = None"

datatype Colour = RGBA nat nat nat nat

definition transparentBlack :: Colour where
  "transparentBlack = RGBA 0 0 0 0"

text \<open>The fill style \<open>'#FFFFFF'\<close>: opaque white.\<close>

definition white :: Colour where
  "white = RGBA 255 255 255 255"

record HTMLImageElement =
  naturalWidth :: nat
  naturalHeight :: nat
  bitmap :: "nat \<Rightarrow> nat \<Rightarrow> Colour"

text \<open>
  A canvas with its 2D context: the bitmap is \<open>pixels column row\<close>, for columns below
  \<open>canvas_width\<close> and rows below \<open>canvas_height\<close>.
\<close>

record Canvas =
  canvas_width :: nat
  canvas_height :: nat
  fillStyle :: Colour
  pixels :: "nat \<Rightarrow> nat \<Rightarrow> Colour"

text \<open>
  The parts of the platform that the source calls and does not define. \<open>decodeImage\<close> is
  the image that an \<open>Image\<close> element loads from a data URL (\<open>None\<close> when its \<open>onerror\<close>
  fires), \<open>readAsDataURL\<close> is the data URL that a \<open>FileReader\<close> reads from the uploaded
  file, given by its name (\<open>None\<close> when its \<open>onerror\<close> fires), \<open>getContext2d\<close> tells
  whether \<open>canvas.getContext('2d')\<close> gives a context, \<open>resample\<close> is the colour the
  browser's scaling filter gives a destination pixel that \<open>drawImage\<close> paints (from the
  image, the source and destination rectangles, the pixel and its old colour),
  \<open>toDataURL\<close> is the JPEG encoder at quality 0.95, and \<open>remoteDetect\<close> is the outcome of
  the \<open>try\<close> block of \<open>detectGarment\<close>: the remote call and the parsing of its answer.
\<close>

record Browser =
  decodeImage :: "string \<Rightarrow> HTMLImageElement option"
  readAsDataURL :: "string \<Rightarrow> string option"
  getContext2d :: bool
  resample :: "HTMLImageElement \<Rightarrow> real \<times> real \<times> real \<times> real \<Rightarrow> real \<times> real \<times> real \<times> real
                 \<Rightarrow> nat \<Rightarrow> nat \<Rightarrow> Colour \<Rightarrow> Colour"
  toDataURL :: "Canvas \<Rightarrow> string"
  remoteDetect :: "string \<Rightarrow> Thrown + GarmentDetails"

text \<open>
  \<open>fileToBase64\<close> and \<open>loadImage\<close> (utils/imageHelpers): promises that resolve with the
  result and reject with the error event.
\<close>

definition fileToBase64 :: "Browser \<Rightarrow> string \<Rightarrow> Thrown + string" where
  "fileToBase64 br file =
     (case readAsDataURL br file of
        Some result \<Rightarrow> Inr result
      | None \<Rightarrow> Inl RejectedEvent)"

definition loadImage :: "Browser \<Rightarrow> string \<Rightarrow> Thrown + HTMLImageElement" where
  "loadImage br src =
     (case decodeImage br src of
        Some img \<Rightarrow> Inr img
      | None \<Rightarrow> Inl RejectedEvent)"

text \<open>\<open>document.createElement('canvas')\<close>: 300 by 150, transparent black, black fill style.\<close>

definition createCanvas :: Canvas where
  "createCanvas = \<lparr>canvas_width = 300, canvas_height = 150,
                    fillStyle = RGBA 0 0 0 255, pixels = (\<lambda>i j. transparentBlack)\<rparr>"

text \<open>Setting a dimension of a canvas clears its bitmap to transparent black.\<close>

definition setWidth :: "nat \<Rightarrow> Canvas \<Rightarrow> Canvas" where
  "setWidth w cv = cv\<lparr>canvas_width := w, pixels := (\<lambda>i j. transparentBlack)\<rparr>"

definition setHeight :: "nat \<Rightarrow> Canvas \<Rightarrow> Canvas" where
  "setHeight h cv = cv\<lparr>canvas_height := h, pixels := (\<lambda>i j. transparentBlack)\<rparr>"

text \<open>
  \<open>fillRect\<close> of a pixel-aligned rectangle with an opaque fill style: the pixels of the
  rectangle that lie on the canvas take the fill colour.
\<close>

definition fillRect :: "nat \<Rightarrow> nat \<Rightarrow> nat \<Rightarrow> nat \<Rightarrow> Canvas \<Rightarrow> Canvas" where
  "fillRect x y w h cv =
     cv\<lparr>pixels := (\<lambda>i j.
          if x \<le> i \<and> i < x + w \<and> y \<le> j \<and> j < y + h
             \<and> i < canvas_width cv \<and> j < canvas_height cv
          then fillStyle cv else pixels cv i j)\<rparr>"

text \<open>
  \<open>drawImage\<close> with a source and a destination rectangle, as the HTML standard has it:
  nothing is painted when \<open>sw\<close> or \<open>sh\<close> is zero, when the destination rectangle or the
  image has no width or no height; the source rectangle is the rectangle whose corners
  are \<open>(sx, sy)\<close> and \<open>(sx + sw, sy + sh)\<close>, and the destination rectangle likewise, so a
  negative width or height names the same rectangle from its other side; the image is
  drawn in its original direction, without mirroring; the source rectangle is clipped to
  the image and the destination rectangle is clipped in the same proportion.

  \<open>paintsAxis\<close> is the clipping on one axis, for an image of extent \<open>n\<close>, the source
  interval from \<open>s\<close> of length \<open>sl\<close> and the destination interval from \<open>d\<close> of length
  \<open>dl\<close>. Both intervals are taken from their lower ends (\<open>srcStart\<close>, \<open>dstStart\<close>) with
  their lengths made positive, and the lower end of the one is drawn at the lower end of
  the other. It tells whether the clipped source interval is not empty and the clipped
  destination interval meets the unit interval of pixel \<open>i\<close>. \<open>paints\<close> tells whether the
  clipped destination rectangle meets the unit square of pixel \<open>(i, j)\<close>; every other
  pixel keeps its colour.
\<close>

definition paintsAxis :: "real \<Rightarrow> real \<Rightarrow> real \<Rightarrow> real \<Rightarrow> real \<Rightarrow> nat \<Rightarrow> bool" where
  "paintsAxis n s sl d dl i =
     (let srcStart = min s (s + sl);
          srcLength = \<bar>sl\<bar>;
          dstStart = min d (d + dl);
          dstLength = \<bar>dl\<bar>;
          srcLow = max srcStart 0;
          srcHigh = min (srcStart + srcLength) n;
          dst = (\<lambda>u. dstStart + (u - srcStart) / srcLength * dstLength);
          dstLow = dst srcLow;
          dstHigh = dst srcHigh
      in srcLow < srcHigh \<and> real i < dstHigh \<and> dstLow < real i + 1)"

definition paints ::
  "HTMLImageElement \<Rightarrow> real \<Rightarrow> real \<Rightarrow> real \<Rightarrow> real \<Rightarrow> real \<Rightarrow> real \<Rightarrow> real \<Rightarrow> real
     \<Rightarrow> nat \<Rightarrow> nat \<Rightarrow> bool" where
  "paints img sx sy sw sh dx dy dw dh i j =
     (let nw = real (naturalWidth img); nh = real (naturalHeight img) in
      if sw = 0 \<or> sh = 0 \<or> dw = 0 \<or> dh = 0 \<or> nw = 0 \<or> nh = 0 then False
      else paintsAxis nw sx sw dx dw i \<and> paintsAxis nh sy sh dy dh j)"

definition drawImage ::
  "Browser \<Rightarrow> HTMLImageElement \<Rightarrow> real \<Rightarrow> real \<Rightarrow> real \<Rightarrow> real \<Rightarrow> real \<Rightarrow> real \<Rightarrow> real \<Rightarrow> real
     \<Rightarrow> Canvas \<Rightarrow> Canvas" where
  "drawImage br img sx sy sw sh dx dy dw dh cv =
     cv\<lparr>pixels := (\<lambda>i j.
          if i < canvas_width cv \<and> j < canvas_height cv
             \<and> paints img sx sy sw sh dx dy dw dh i j
          then resample br img (sx, sy, sw, sh) (dx, dy, dw, dh) i j (pixels cv i j)
          else pixels cv i j)\<rparr>"

section \<open>Fixed-size render (utils/imageHelpers: performCrop)\<close>

text \<open>
  \<open>outputSize\<close> becomes the canvas's width and height, which are unsigned integers; every
  caller passes 1024. \<open>performCrop_filled\<close> is the canvas after \<open>ctx.fillRect\<close>, and
  \<open>performCrop_canvas\<close> the canvas after \<open>ctx.drawImage\<close>, the one that is encoded.
\<close>

definition performCrop_filled :: "nat \<Rightarrow> Canvas" where
  "performCrop_filled outputSize =
     (let canvas = createCanvas;
          canvas = setWidth outputSize canvas;
          canvas = setHeight outputSize canvas;
          canvas = canvas\<lparr>fillStyle := white\<rparr>
      in fillRect 0 0 outputSize outputSize canvas)"

definition performCrop_canvas :: "Browser \<Rightarrow> HTMLImageElement \<Rightarrow> CropRect \<Rightarrow> nat \<Rightarrow> Canvas" where
  "performCrop_canvas br img r outputSize =
     drawImage br img
       (crop_x r) (crop_y r) (crop_size r) (crop_size r)
       0 0 (real outputSize) (real outputSize)
       (performCrop_filled outputSize)"

definition performCrop :: "Browser \<Rightarrow> string \<Rightarrow> CropRect \<Rightarrow> nat \<Rightarrow> Thrown + string" where
  "performCrop br imageSrc r outputSize =
     (case loadImage br imageSrc of
        Inl e \<Rightarrow> Inl e
      | Inr img \<Rightarrow>
          if \<not> getContext2d br then Inl (Error ''Could not get canvas context'')
          else Inr (toDataURL br (performCrop_canvas br img r outputSize)))"

section \<open>Interactive crop editor (App: CropEditor)\<close>

text \<open>
  The component's state: the \<open>crop\<close> and \<open>imgElement\<close> state variables and the three refs
  \<open>isDragging\<close>, \<open>dragStart\<close> and \<open>startCropPos\<close> (an object \<open>{x, y}\<close> is a pair). The
  editor starts from \<open>initialCrop\<close> with no image element and no drag.
\<close>

record CropEditor =
  crop :: CropRect
  imgElement :: "HTMLImageElement option"
  isDragging :: bool
  dragStart :: "real \<times> real"
  startCropPos :: "real \<times> real"

definition initEditor :: "CropRect \<Rightarrow> CropEditor" where
  "initEditor initialCrop =
     \<lparr>crop = initialCrop, imgElement = None, isDragging = False,
      dragStart = (0, 0), startCropPos = (0, 0)\<rparr>"

definition handleMouseDown :: "CropEditor \<Rightarrow> real \<Rightarrow> real \<Rightarrow> CropEditor" where
  "handleMouseDown ed clientX clientY =
     ed\<lparr>isDragging := True,
        dragStart := (clientX, clientY),
        startCropPos := (crop_x (crop ed), crop_y (crop ed))\<rparr>"

text \<open>
  \<open>rect\<close> is \<open>None\<close> when \<open>containerRef.current\<close> is null, and otherwise the width of the
  container's bounding client rectangle.
\<close>

definition handleMouseMove :: "CropEditor \<Rightarrow> real \<Rightarrow> real \<Rightarrow> real option \<Rightarrow> CropEditor" where
  "handleMouseMove ed clientX clientY rect =
     (case (isDragging ed, imgElement ed, rect) of
        (True, Some img, Some rectWidth) \<Rightarrow>
          (let deltaX = clientX - fst (dragStart ed);
               deltaY = clientY - snd (dragStart ed)
           in if rectWidth = 0 then ed
              else
                let scale = real (naturalWidth img) / rectWidth in
                ed\<lparr>crop := (crop ed)\<lparr>crop_x := fst (startCropPos ed) + (deltaX * scale),
                                      crop_y := snd (startCropPos ed) + (deltaY * scale)\<rparr>\<rparr>)
      | _ \<Rightarrow> ed)"

definition handleMouseUp :: "CropEditor \<Rightarrow> CropEditor" where
  "handleMouseUp ed = ed\<lparr>isDragging := False\<rparr>"

text \<open>
  \<open>handleSizeChange\<close> reads the old size from the \<open>crop\<close> of the render that made the
  handler (\<open>closure\<close>) and updates the state from its latest value (\<open>prev\<close>, the editor's
  \<open>crop\<close>). \<open>newSize\<close> is \<open>Number(e.target.value)\<close>.
\<close>

definition handleSizeChange :: "CropRect \<Rightarrow> CropEditor \<Rightarrow> real \<Rightarrow> CropEditor" where
  "handleSizeChange closure ed newSize =
     (case imgElement ed of
        None \<Rightarrow> ed
      | Some img \<Rightarrow>
          (let oldCenter = crop_size closure / 2;
               newCenter = newSize / 2;
               offset = oldCenter - newCenter;
               prev = crop ed
           in ed\<lparr>crop := \<lparr>crop_x = crop_x prev + offset,
                           crop_y = crop_y prev + offset,
                           crop_size = newSize\<rparr>\<rparr>))"

definition onImgLoad :: "CropEditor \<Rightarrow> HTMLImageElement \<Rightarrow> CropEditor" where
  "onImgLoad ed img = ed\<lparr>imgElement := Some img\<rparr>"

text \<open>
  The events of the editor. React renders again after each state update, so a handler's
  closure holds the current \<open>crop\<close>: \<open>editorStep\<close> passes it to \<open>handleSizeChange\<close>.
\<close>

datatype EditorEvent =
    MouseDown real real
  | MouseMove real real "real option"
  | MouseUp
  | SizeChange real
  | ImgLoad HTMLImageElement

fun editorStep :: "CropEditor \<Rightarrow> EditorEvent \<Rightarrow> CropEditor" where
  "editorStep ed (MouseDown clientX clientY) = handleMouseDown ed clientX clientY"
| "editorStep ed (MouseMove clientX clientY rect) = handleMouseMove ed clientX clientY rect"
| "editorStep ed MouseUp = handleMouseUp ed"
| "editorStep ed (SizeChange newSize) = handleSizeChange (crop ed) ed newSize"
| "editorStep ed (ImgLoad img) = onImgLoad ed img"

fun editorRun :: "CropEditor \<Rightarrow> EditorEvent list \<Rightarrow> CropEditor" where
  "editorRun ed [] = ed"
| "editorRun ed (e # es) = editorRun (editorStep ed e) es"

fun isDragEvent :: "EditorEvent \<Rightarrow> bool" where
  "isDragEvent (MouseDown _ _) = True"
| "isDragEvent (MouseMove _ _ _) = True"
| "isDragEvent MouseUp = True"
| "isDragEvent _ = False"

section \<open>Orchestration (App)\<close>

record App =
  appState :: AppState
  sourceImage :: "string option"
  croppedImage :: "string option"
  garmentDetails :: "GarmentDetails option"
  currentCrop :: "CropRect option"
  errorMsg :: "string option"
  originalFileName :: string

definition initialApp :: App where
  "initialApp =
     \<lparr>appState = IDLE, sourceImage = None, croppedImage = None, garmentDetails = None,
      currentCrop = None, errorMsg = None, originalFileName = ''smart-crop''\<rparr>"

text \<open>
  A string is a list of characters. The two regular expressions of the source test one
  character at a time against classes of ASCII characters, so the characters outside
  ASCII need no model of their own: each of them is an extension character for the
  first expression and is removed by the second.

  \<open>name.replace(/\.[^/.]+$/, "")\<close>: the leftmost position where a dot is followed, up to
  the end of the string, by one or more characters that are neither \<open>/\<close> nor \<open>.\<close>; the
  match is removed. Without a match the name is unchanged.
\<close>

fun stripExtension :: "string \<Rightarrow> string" where
  "stripExtension [] = []"
| "stripExtension (c # cs) =
     (if c = CHR ''.'' \<and> cs \<noteq> [] \<and> list_all (\<lambda>d. d \<noteq> CHR ''/'' \<and> d \<noteq> CHR ''.'') cs
      then []
      else c # stripExtension cs)"

text \<open>The character class \<open>[a-zA-Z0-9-]\<close>, by character codes.\<close>

definition isAlnumOrHyphen :: "char \<Rightarrow> bool" where
  "isAlnumOrHyphen c =
     (let n = (of_char c :: nat) in
      (97 \<le> n \<and> n \<le> 122) \<or> (65 \<le> n \<and> n \<le> 90) \<or> (48 \<le> n \<and> n \<le> 57) \<or> n = 45)"

text \<open>\<open>color.replace(/[^a-zA-Z0-9-]/g, '')\<close>: every character outside the class is removed.\<close>

definition sanitize :: "string \<Rightarrow> string" where
  "sanitize s = filter isAlnumOrHyphen s"

text \<open>
  \<open>detectGarment\<close>: whatever the remote call or the parsing of its answer throws is caught
  and replaced by one error.
\<close>

definition detectGarment :: "Browser \<Rightarrow> string \<Rightarrow> Thrown + GarmentDetails" where
  "detectGarment br base64Image =
     (case remoteDetect br base64Image of
        Inl e \<Rightarrow> Inl (Error ''Failed to detect garment details. Please try a clearer image.'')
      | Inr result \<Rightarrow> Inr result)"

text \<open>\<open>err.message || "Failed to process image."\<close>: a missing or empty message is falsy.\<close>

definition messageOr :: "Thrown \<Rightarrow> string \<Rightarrow> string" where
  "messageOr err dflt =
     (case message err of
        None \<Rightarrow> dflt
      | Some m \<Rightarrow> if m = [] then dflt else m)"

text \<open>The \<open>catch\<close> block of \<open>processImage\<close>.\<close>

definition processImage_catch :: "App \<Rightarrow> Thrown \<Rightarrow> App" where
  "processImage_catch a err =
     (let a = a\<lparr>errorMsg := Some (messageOr err ''Failed to process image.'')\<rparr>
      in a\<lparr>appState := ERROR\<rparr>)"

text \<open>
  \<open>processImage\<close>, with each \<open>await\<close> read as a call that returns or throws; the state
  setters take effect in the order of the source.
\<close>

definition processImage :: "Browser \<Rightarrow> App \<Rightarrow> string \<Rightarrow> App" where
  "processImage br a base64 =
     (case detectGarment br base64 of
        Inl err \<Rightarrow> processImage_catch a err
      | Inr details \<Rightarrow>
          (let a = a\<lparr>garmentDetails := Some details\<rparr>;
               a = a\<lparr>appState := CROPPING\<rparr>
           in case loadImage br base64 of
                Inl err \<Rightarrow> processImage_catch a err
              | Inr img \<Rightarrow>
                  (let targetBox = (case textureBox details of
                                      Some t \<Rightarrow> t
                                    | None \<Rightarrow> box details);
                       smartCrop = calculateSmartCrop targetBox
                                     (real (naturalWidth img)) (real (naturalHeight img));
                       a = a\<lparr>currentCrop := Some smartCrop\<rparr>
                   in case performCrop br base64 smartCrop 1024 of
                        Inl err \<Rightarrow> processImage_catch a err
                      | Inr resultUrl \<Rightarrow>
                          (let a = a\<lparr>croppedImage := Some resultUrl\<rparr>
                           in a\<lparr>appState := SUCCESS\<rparr>))))"

text \<open>\<open>handleFileUpload\<close>; \<open>file\<close> is \<open>e.target.files?.[0]\<close>, given by its name.\<close>

definition handleFileUpload :: "Browser \<Rightarrow> App \<Rightarrow> string option \<Rightarrow> App" where
  "handleFileUpload br a file =
     (case file of
        None \<Rightarrow> a
      | Some fileName \<Rightarrow>
          (let a = a\<lparr>appState := ANALYZING, croppedImage := None, garmentDetails := None,
                      currentCrop := None, errorMsg := None\<rparr>;
               name = stripExtension fileName;
               a = a\<lparr>originalFileName := name\<rparr>
           in case fileToBase64 br fileName of
                Inr base64 \<Rightarrow> processImage br (a\<lparr>sourceImage := Some base64\<rparr>) base64
              | Inl err \<Rightarrow>
                  (let a = a\<lparr>errorMsg := Some ''Failed to load image file.''\<rparr>
                   in a\<lparr>appState := ERROR\<rparr>)))"

definition handleManualCropConfirm :: "Browser \<Rightarrow> App \<Rightarrow> CropRect \<Rightarrow> App" where
  "handleManualCropConfirm br a newCrop =
     (case sourceImage a of
        None \<Rightarrow> a
      | Some src \<Rightarrow>
          (let a = a\<lparr>appState := CROPPING\<rparr>;
               a = a\<lparr>currentCrop := Some newCrop\<rparr>
           in case performCrop br src newCrop 1024 of
                Inr resultUrl \<Rightarrow>
                  (let a = a\<lparr>croppedImage := Some resultUrl\<rparr>
                   in a\<lparr>appState := SUCCESS\<rparr>)
              | Inl e \<Rightarrow> a\<lparr>errorMsg := Some ''Failed to apply manual crop''\<rparr>))"

text \<open>
  \<open>handleDownload\<close>: the link that is clicked, as its \<open>href\<close> and its \<open>download\<close> name, or
  nothing when there is no cropped image.
\<close>

definition handleDownload :: "App \<Rightarrow> (string \<times> string) option" where
  "handleDownload a =
     (case croppedImage a of
        None \<Rightarrow> None
      | Some href \<Rightarrow>
          (let colorPart = (case garmentDetails a of
                              None \<Rightarrow> []
                            | Some details \<Rightarrow>
                                if color details \<noteq> [] then ''_'' @ sanitize (color details)
                                else [])
           in Some (href, originalFileName a @ colorPart @ ''.jpg'')))"

definition handleReset :: "App \<Rightarrow> App" where
  "handleReset a = initialApp"

text \<open>
  The app together with the editor overlay, which is mounted while the state is
  \<open>EDITING\<close> and there are a source image and a current crop; its \<open>initialCrop\<close> is the
  current crop. The editor's handlers reach the app through \<open>onConfirm\<close> and \<open>onCancel\<close>
  only.
\<close>

record Session =
  app :: App
  editor :: "CropEditor option"

datatype UIEvent = AdjustCrop | Edit EditorEvent | Cancel | Confirm

definition mountEditor :: "App \<Rightarrow> CropEditor option" where
  "mountEditor a =
     (case (appState a, sourceImage a, currentCrop a) of
        (EDITING, Some src, Some initialCrop) \<Rightarrow> Some (initEditor initialCrop)
      | _ \<Rightarrow> None)"

fun uiStep :: "Browser \<Rightarrow> Session \<Rightarrow> UIEvent \<Rightarrow> Session" where
  "uiStep br s AdjustCrop =
     (if croppedImage (app s) \<noteq> None \<and> editor s = None
      then (let a = (app s)\<lparr>appState := EDITING\<rparr> in \<lparr>app = a, editor = mountEditor a\<rparr>)
      else s)"
| "uiStep br s (Edit e) =
     (case editor s of
        None \<Rightarrow> s
      | Some ed \<Rightarrow> s\<lparr>editor := Some (editorStep ed e)\<rparr>)"
| "uiStep br s Cancel =
     (case editor s of
        None \<Rightarrow> s
      | Some ed \<Rightarrow> (let a = (app s)\<lparr>appState := SUCCESS\<rparr> in \<lparr>app = a, editor = mountEditor a\<rparr>))"
| "uiStep br s Confirm =
     (case editor s of
        None \<Rightarrow> s
      | Some ed \<Rightarrow>
          (let a = handleManualCropConfirm br (app s) (crop ed)
           in \<lparr>app = a, editor = mountEditor a\<rparr>))"

fun uiRun :: "Browser \<Rightarrow> Session \<Rightarrow> UIEvent list \<Rightarrow> Session" where
  "uiRun br s [] = s"
| "uiRun br s (e # es) = uiRun br (uiStep br s e) es"

section \<open>Notions of the specification\<close>

text \<open>
  A crop rectangle lies entirely outside the source image when, on one axis, its interval
  (from \<open>s\<close> to \<open>s + sl\<close>, in either order) does not reach into the image's \<open>[0, n]\<close>.
\<close>

definition outsideAxis :: "real \<Rightarrow> real \<Rightarrow> real \<Rightarrow> bool" where
  "outsideAxis n s sl = (max s (s + sl) \<le> 0 \<or> n \<le> min s (s + sl))"

definition outsideImage :: "HTMLImageElement \<Rightarrow> CropRect \<Rightarrow> bool" where
  "outsideImage img r =
     (outsideAxis (real (naturalWidth img)) (crop_x r) (crop_size r)
      \<or> outsideAxis (real (naturalHeight img)) (crop_y r) (crop_size r))"

text \<open>
  The part of the crop rectangle that output pixel \<open>i\<close> of \<open>out\<close> shows, on one axis: the
  crop's interval, taken from its lower end \<open>min s (s + sl)\<close> with the length \<open>\<bar>sl\<bar>\<close>, is
  divided evenly among the \<open>out\<close> pixels in its own direction, pixel 0 showing the lowest
  part. The pixel's part is outside the source image when it does not reach into
  \<open>[0, n]\<close>.
\<close>

definition sourceOfPixel :: "real \<Rightarrow> real \<Rightarrow> nat \<Rightarrow> nat \<Rightarrow> real \<times> real" where
  "sourceOfPixel s sl out i =
     (min s (s + sl) + real i * \<bar>sl\<bar> / real out,
      min s (s + sl) + (real i + 1) * \<bar>sl\<bar> / real out)"

definition pixelOutsideAxis :: "real \<Rightarrow> real \<Rightarrow> real \<Rightarrow> nat \<Rightarrow> nat \<Rightarrow> bool" where
  "pixelOutsideAxis n s sl out i =
     (let (u0, u1) = sourceOfPixel s sl out i in u1 \<le> 0 \<or> n \<le> u0)"

definition pixelOutside :: "HTMLImageElement \<Rightarrow> CropRect \<Rightarrow> nat \<Rightarrow> nat \<Rightarrow> nat \<Rightarrow> bool" where
  "pixelOutside img r out i j =
     (pixelOutsideAxis (real (naturalWidth img)) (crop_x r) (crop_size r) out i
      \<or> pixelOutsideAxis (real (naturalHeight img)) (crop_y r) (crop_size r) out j)"

text \<open>The alphanumeric characters and the hyphen, one by one.\<close>

definition alnumHyphenChars :: string where
  "alnumHyphenChars = ''abcdefghijklmnopqrstuvwxyzABCDEFGHIJKLMNOPQRSTUVWXYZ0123456789-''"

section \<open>Concrete inputs\<close>

text \<open>
  A 1000 by 1000 image of one colour, detection results with the colour name
  \<open>Navy Blue!\<close>, and three browsers: one in which every call succeeds, one that gives no
  canvas context, and one whose detection call fails.
\<close>

definition exampleImage :: HTMLImageElement where
  "exampleImage = \<lparr>naturalWidth = 1000, naturalHeight = 1000, bitmap = (\<lambda>i j. RGBA 10 20 90 255)\<rparr>"

definition exampleDetails :: GarmentDetails where
  "exampleDetails =
     \<lparr>box = \<lparr>ymin = 50, xmin = 100, ymax = 950, xmax = 900\<rparr>,
      textureBox = Some \<lparr>ymin = 100, xmin = 200, ymax = 500, xmax = 600\<rparr>,
      texture = ''Ribbed knit'', color = ''Navy Blue!''\<rparr>"

definition exampleBrowser :: Browser where
  "exampleBrowser =
     \<lparr>decodeImage = (\<lambda>src. Some exampleImage),
      readAsDataURL = (\<lambda>fileName. Some (''data:image/png;base64,'' @ fileName)),
      getContext2d = True,
      resample = (\<lambda>img src dst i j old. bitmap img 0 0),
      toDataURL = (\<lambda>cv. if pixels cv 0 0 = white then ''data:image/jpeg;base64,white''
                          else ''data:image/jpeg;base64,image''),
      remoteDetect = (\<lambda>b. Inr exampleDetails)\<rparr>"

definition noContextBrowser :: Browser where
  "noContextBrowser = exampleBrowser\<lparr>getContext2d := False\<rparr>"

definition noDetectionBrowser :: Browser where
  "noDetectionBrowser = exampleBrowser\<lparr>remoteDetect := (\<lambda>b. Inl RejectedEvent)\<rparr>"

text \<open>A 10 by 10 image of one colour and a browser that decodes it.\<close>

definition smallImage :: HTMLImageElement where
  "smallImage = \<lparr>naturalWidth = 10, naturalHeight = 10, bitmap = (\<lambda>i j. RGBA 200 30 30 255)\<rparr>"

definition smallBrowser :: Browser where
  "smallBrowser = exampleBrowser\<lparr>decodeImage := (\<lambda>src. Some smallImage)\<rparr>"

text \<open>An editor on the crop \<open>{x: 180, y: 80, size: 440}\<close> whose image has loaded.\<close>

definition exampleEditor :: CropEditor where
  "exampleEditor =
     onImgLoad (initEditor \<lparr>crop_x = 180, crop_y = 80, crop_size = 440\<rparr>) exampleImage"

text \<open>A session in which that editor is open over a finished crop.\<close>

definition exampleApp :: App where
  "exampleApp =
     \<lparr>appState = EDITING, sourceImage = Some ''data:image/png;base64,photo.png'',
      croppedImage = Some ''data:image/jpeg;base64,image'',
      garmentDetails = Some exampleDetails,
      currentCrop = Some \<lparr>crop_x = 180, crop_y = 80, crop_size = 440\<rparr>,
      errorMsg = None, originalFileName = ''photo''\<rparr>"

definition exampleSession :: Session where
  "exampleSession = \<lparr>app = exampleApp, editor = Some exampleEditor\<rparr>"

section \<open>Properties of the crop-rectangle derivation\<close>

lemmas pixel_defs =
  pixelXmin_def pixelXmax_def pixelYmin_def pixelYmax_def
  pixelWidth_def pixelHeight_def pixelCenterX_def pixelCenterY_def

lemma calculateSmartCrop_size:
  "crop_size (calculateSmartCrop b w h) = 1.1 * max (pixelWidth b w) (pixelHeight b h)"
  by (simp add: calculateSmartCrop_def Let_def pixel_defs)

lemma calculateSmartCrop_centerX:
  "centerX (calculateSmartCrop b w h) = pixelCenterX b w"
  by (simp add: calculateSmartCrop_def Let_def pixel_defs centerX_def field_simps)

lemma calculateSmartCrop_centerY:
  "centerY (calculateSmartCrop b w h) = pixelCenterY b h"
  by (simp add: calculateSmartCrop_def Let_def pixel_defs centerY_def field_simps)

lemma pixelWidth_eq: "pixelWidth b w = (xmax b - xmin b) * w / 1000"
  by (simp add: pixel_defs field_simps)

lemma pixelHeight_eq: "pixelHeight b h = (ymax b - ymin b) * h / 1000"
  by (simp add: pixel_defs field_simps)

lemma pixelWidth_pos: "0 < w \<Longrightarrow> (0 < pixelWidth b w) = (xmin b < xmax b)"
  by (simp add: pixelWidth_eq zero_less_mult_iff)

lemma pixelHeight_pos: "0 < h \<Longrightarrow> (0 < pixelHeight b h) = (ymin b < ymax b)"
  by (simp add: pixelHeight_eq zero_less_mult_iff)

lemma pixelWidth_nonneg: "0 < w \<Longrightarrow> (0 \<le> pixelWidth b w) = (xmin b \<le> xmax b)"
  by (simp add: pixelWidth_eq zero_le_mult_iff)

lemma pixelHeight_nonneg: "0 < h \<Longrightarrow> (0 \<le> pixelHeight b h) = (ymin b \<le> ymax b)"
  by (simp add: pixelHeight_eq zero_le_mult_iff)

text \<open>
  Claim C1. For every bounding box with \<open>0 \<le> xmin < xmax \<le> 1000\<close> and
  \<open>0 \<le> ymin < ymax \<le> 1000\<close> and every positive image width and height, the crop rectangle
  of \<open>calculateSmartCrop\<close> has the center of the box in pixel space and the size
  \<open>1.1 * max pixelWidth pixelHeight\<close>; and the box \<open>{ymin: 100, xmin: 200, ymax: 500, xmax: 600}\<close>
  on a 1000 by 1000 image gives \<open>{x: 180, y: 80, size: 440}\<close>.
\<close>

theorem calculateSmartCrop_center_and_size:
  "(\<forall>b imgWidth imgHeight.
      0 \<le> xmin b \<and> xmin b < xmax b \<and> xmax b \<le> 1000 \<and>
      0 \<le> ymin b \<and> ymin b < ymax b \<and> ymax b \<le> 1000 \<and>
      0 < imgWidth \<and> 0 < imgHeight \<longrightarrow>
      centerX (calculateSmartCrop b imgWidth imgHeight) = pixelCenterX b imgWidth \<and>
      centerY (calculateSmartCrop b imgWidth imgHeight) = pixelCenterY b imgHeight \<and>
      crop_size (calculateSmartCrop b imgWidth imgHeight)
        = 1.1 * max (pixelWidth b imgWidth) (pixelHeight b imgHeight))
   \<and> calculateSmartCrop \<lparr>ymin = 100, xmin = 200, ymax = 500, xmax = 600\<rparr> 1000 1000
       = \<lparr>crop_x = 180, crop_y = 80, crop_size = 440\<rparr>"
proof (intro conjI allI impI)
  show "calculateSmartCrop \<lparr>ymin = 100, xmin = 200, ymax = 500, xmax = 600\<rparr> 1000 1000
       = \<lparr>crop_x = 180, crop_y = 80, crop_size = 440\<rparr>"
    by (simp add: calculateSmartCrop_def Let_def)
qed (simp_all add: calculateSmartCrop_size calculateSmartCrop_centerX calculateSmartCrop_centerY)

text \<open>
  The theorem at a box that is taller than wide, on a 2000 by 1000 image: the pixel box
  is 800 by 800 around (800, 500), and the size is 880.
\<close>

theorem calculateSmartCrop_center_and_size_witness:
  "centerX (calculateSmartCrop \<lparr>ymin = 100, xmin = 200, ymax = 900, xmax = 600\<rparr> 2000 1000) = 800
   \<and> centerY (calculateSmartCrop \<lparr>ymin = 100, xmin = 200, ymax = 900, xmax = 600\<rparr> 2000 1000) = 500
   \<and> crop_size (calculateSmartCrop \<lparr>ymin = 100, xmin = 200, ymax = 900, xmax = 600\<rparr> 2000 1000) = 880"
  using calculateSmartCrop_center_and_size [THEN conjunct1, rule_format,
      of "\<lparr>ymin = 100, xmin = 200, ymax = 900, xmax = 600\<rparr>" 2000 1000]
  by (simp add: pixel_defs)

text \<open>
  Claim C4 says that \<open>calculateSmartCrop\<close> returns a size above 0 for every bounding box.
  A box that is a single point gives the size 0.
\<close>

theorem calculateSmartCrop_size_zero_counterexample:
  "\<not> 0 < crop_size (calculateSmartCrop
                      \<lparr>ymin = 300, xmin = 400, ymax = 300, xmax = 400\<rparr> 1000 1000)"
  by (simp add: calculateSmartCrop_def Let_def)

text \<open>
  Claim C4, amended. For positive image dimensions, the size that \<open>calculateSmartCrop\<close>
  returns is above 0 exactly when the box has a positive extent on at least one axis
  (\<open>xmin < xmax\<close> or \<open>ymin < ymax\<close>).
\<close>

theorem calculateSmartCrop_size_positive_iff:
  assumes "0 < imgWidth" and "0 < imgHeight"
  shows "(0 < crop_size (calculateSmartCrop b imgWidth imgHeight))
           = (xmin b < xmax b \<or> ymin b < ymax b)"
proof -
  have "(0 < crop_size (calculateSmartCrop b imgWidth imgHeight))
          = (0 < max (pixelWidth b imgWidth) (pixelHeight b imgHeight))"
    by (simp add: calculateSmartCrop_size zero_less_mult_iff)
  also have "\<dots> = (0 < pixelWidth b imgWidth \<or> 0 < pixelHeight b imgHeight)"
    by (simp add: less_max_iff_disj)
  finally show ?thesis
    using assms by (simp add: pixelWidth_pos pixelHeight_pos)
qed

theorem calculateSmartCrop_size_positive_iff_witness:
  "0 < crop_size (calculateSmartCrop
                    \<lparr>ymin = 300, xmin = 400, ymax = 300, xmax = 600\<rparr> 1000 800)"
  using calculateSmartCrop_size_positive_iff
          [of 1000 800 "\<lparr>ymin = 300, xmin = 400, ymax = 300, xmax = 600\<rparr>"]
  by simp

text \<open>
  Claim C5 says that a box with \<open>ymin = ymax\<close> gets 1.1 times the pixel extent of its
  x-axis as its size. A box that is degenerate on the y-axis and inverted on the x-axis
  (\<open>xmax < xmin\<close>) gets the size 0, which is not 1.1 times its pixel width of -400.
\<close>

theorem calculateSmartCrop_degenerate_inverted_counterexample:
  "crop_size (calculateSmartCrop
                \<lparr>ymin = 300, xmin = 500, ymax = 300, xmax = 100\<rparr> 1000 1000) = 0
   \<and> 1.1 * pixelWidth \<lparr>ymin = 300, xmin = 500, ymax = 300, xmax = 100\<rparr> 1000 = - 440"
  by (simp add: calculateSmartCrop_def Let_def pixel_defs)

text \<open>
  Claim C5, amended. For positive image dimensions and a box that is degenerate on one
  axis, the size is 1.1 times the larger of 0 and the pixel extent of the other axis:
  1.1 times that extent when the other axis is not inverted, and 0 when it is; when both
  axes are degenerate the size is 0.
\<close>

theorem calculateSmartCrop_degenerate:
  assumes "0 < imgWidth" and "0 < imgHeight"
  shows "(ymin b = ymax b \<longrightarrow>
            crop_size (calculateSmartCrop b imgWidth imgHeight)
              = 1.1 * max (pixelWidth b imgWidth) 0) \<and>
         (xmin b = xmax b \<longrightarrow>
            crop_size (calculateSmartCrop b imgWidth imgHeight)
              = 1.1 * max (pixelHeight b imgHeight) 0) \<and>
         (ymin b = ymax b \<and> xmin b \<le> xmax b \<longrightarrow>
            crop_size (calculateSmartCrop b imgWidth imgHeight) = 1.1 * pixelWidth b imgWidth) \<and>
         (xmin b = xmax b \<and> ymin b \<le> ymax b \<longrightarrow>
            crop_size (calculateSmartCrop b imgWidth imgHeight) = 1.1 * pixelHeight b imgHeight) \<and>
         (ymin b = ymax b \<and> xmin b = xmax b \<longrightarrow>
            crop_size (calculateSmartCrop b imgWidth imgHeight) = 0)"
proof -
  have h0: "ymin b = ymax b \<Longrightarrow> pixelHeight b imgHeight = 0"
    by (simp add: pixelHeight_eq)
  have w0: "xmin b = xmax b \<Longrightarrow> pixelWidth b imgWidth = 0"
    by (simp add: pixelWidth_eq)
  have wn: "xmin b \<le> xmax b \<Longrightarrow> 0 \<le> pixelWidth b imgWidth"
    using assms by (simp add: pixelWidth_nonneg)
  have hn: "ymin b \<le> ymax b \<Longrightarrow> 0 \<le> pixelHeight b imgHeight"
    using assms by (simp add: pixelHeight_nonneg)
  show ?thesis
    using h0 w0 wn hn by (auto simp add: calculateSmartCrop_size max_def)
qed

text \<open>
  The theorem at a box of no height and 200 units of width on a 1000 by 800 image (the
  size is 1.1 times 200 pixels), and at a box of no width and 500 units of height on the
  same image (1.1 times 400 pixels).
\<close>

theorem calculateSmartCrop_degenerate_witness:
  "crop_size (calculateSmartCrop
                \<lparr>ymin = 300, xmin = 400, ymax = 300, xmax = 600\<rparr> 1000 800) = 220
   \<and> crop_size (calculateSmartCrop
                \<lparr>ymin = 100, xmin = 400, ymax = 600, xmax = 400\<rparr> 1000 800) = 440"
  using calculateSmartCrop_degenerate
          [of 1000 800 "\<lparr>ymin = 300, xmin = 400, ymax = 300, xmax = 600\<rparr>"]
        calculateSmartCrop_degenerate
          [of 1000 800 "\<lparr>ymin = 100, xmin = 400, ymax = 600, xmax = 400\<rparr>"]
  by (simp add: pixel_defs)

section \<open>Properties of the crop editor\<close>

lemma handleSizeChange_loaded:
  "imgElement ed = Some img \<Longrightarrow>
   crop (handleSizeChange (crop ed) ed newSize)
     = \<lparr>crop_x = crop_x (crop ed) + (crop_size (crop ed) - newSize) / 2,
        crop_y = crop_y (crop ed) + (crop_size (crop ed) - newSize) / 2,
        crop_size = newSize\<rparr>"
  by (simp add: handleSizeChange_def Let_def field_simps)

lemma handleSizeChange_centerX:
  "centerX (crop (handleSizeChange (crop ed) ed newSize)) = centerX (crop ed)"
  by (simp add: handleSizeChange_def Let_def centerX_def field_simps split: option.splits)

lemma handleSizeChange_centerY:
  "centerY (crop (handleSizeChange (crop ed) ed newSize)) = centerY (crop ed)"
  by (simp add: handleSizeChange_def Let_def centerY_def field_simps split: option.splits)

text \<open>
  Claim C2. The slider's resize keeps the center of the crop rectangle: with the image
  loaded (the slider is rendered only then), the new origin is the old origin plus
  \<open>(oldSize - newSize) / 2\<close> on each axis and the size is the new size; the center does not
  move; and resizing to \<open>s1\<close> and then to \<open>s2\<close> gives the center (and the rectangle) of
  resizing to \<open>s2\<close> at once.
\<close>

theorem handleSizeChange_keeps_center:
  "(imgElement ed \<noteq> None \<longrightarrow>
      crop_x (crop (editorStep ed (SizeChange newSize)))
        = crop_x (crop ed) + (crop_size (crop ed) - newSize) / 2 \<and>
      crop_y (crop (editorStep ed (SizeChange newSize)))
        = crop_y (crop ed) + (crop_size (crop ed) - newSize) / 2 \<and>
      crop_size (crop (editorStep ed (SizeChange newSize))) = newSize) \<and>
   centerX (crop (editorStep ed (SizeChange newSize))) = centerX (crop ed) \<and>
   centerY (crop (editorStep ed (SizeChange newSize))) = centerY (crop ed) \<and>
   centerX (crop (editorRun ed [SizeChange s1, SizeChange s2]))
     = centerX (crop (editorRun ed [SizeChange s2])) \<and>
   centerY (crop (editorRun ed [SizeChange s1, SizeChange s2]))
     = centerY (crop (editorRun ed [SizeChange s2])) \<and>
   crop (editorRun ed [SizeChange s1, SizeChange s2]) = crop (editorRun ed [SizeChange s2])"
proof (intro conjI impI)
  assume "imgElement ed \<noteq> None"
  then obtain img where img: "imgElement ed = Some img" by auto
  show "crop_x (crop (editorStep ed (SizeChange newSize)))
        = crop_x (crop ed) + (crop_size (crop ed) - newSize) / 2"
    using handleSizeChange_loaded [OF img, of newSize] by simp
  show "crop_y (crop (editorStep ed (SizeChange newSize)))
        = crop_y (crop ed) + (crop_size (crop ed) - newSize) / 2"
    using handleSizeChange_loaded [OF img, of newSize] by simp
  show "crop_size (crop (editorStep ed (SizeChange newSize))) = newSize"
    using handleSizeChange_loaded [OF img, of newSize] by simp
next
  show "centerX (crop (editorStep ed (SizeChange newSize))) = centerX (crop ed)"
    using handleSizeChange_centerX [of ed newSize] by simp
  show "centerY (crop (editorStep ed (SizeChange newSize))) = centerY (crop ed)"
    using handleSizeChange_centerY [of ed newSize] by simp
  show "centerX (crop (editorRun ed [SizeChange s1, SizeChange s2]))
     = centerX (crop (editorRun ed [SizeChange s2]))"
    using handleSizeChange_centerX [of ed s2] handleSizeChange_centerX [of ed s1]
          handleSizeChange_centerX [of "editorStep ed (SizeChange s1)" s2]
    by simp
  show "centerY (crop (editorRun ed [SizeChange s1, SizeChange s2]))
     = centerY (crop (editorRun ed [SizeChange s2]))"
    using handleSizeChange_centerY [of ed s2] handleSizeChange_centerY [of ed s1]
          handleSizeChange_centerY [of "editorStep ed (SizeChange s1)" s2]
    by simp
  show "crop (editorRun ed [SizeChange s1, SizeChange s2]) = crop (editorRun ed [SizeChange s2])"
    by (cases "imgElement ed") (simp_all add: handleSizeChange_def Let_def field_simps)
qed

text \<open>
  The theorem at the editor on \<open>{x: 180, y: 80, size: 440}\<close>, center (400, 300): resizing
  to 300 gives the origin (250, 150), and resizing to 300 and then to 600 gives the
  rectangle of resizing to 600.
\<close>

theorem handleSizeChange_keeps_center_witness:
  "crop (editorStep exampleEditor (SizeChange 300))
     = \<lparr>crop_x = 250, crop_y = 150, crop_size = 300\<rparr>
   \<and> centerX (crop (editorStep exampleEditor (SizeChange 300))) = 400
   \<and> centerY (crop (editorStep exampleEditor (SizeChange 300))) = 300
   \<and> crop (editorRun exampleEditor [SizeChange 300, SizeChange 600])
       = \<lparr>crop_x = 100, crop_y = 0, crop_size = 600\<rparr>"
  using handleSizeChange_keeps_center [of exampleEditor 300 300 600]
  by (simp add: exampleEditor_def initEditor_def onImgLoad_def handleSizeChange_def
        centerX_def centerY_def)

text \<open>
  Claim C3. While dragging (the drag flag is set, the image has loaded, the container is
  there and its width is not 0), a mouse move sets the crop origin to the anchored origin
  plus the pointer's screen delta times \<open>naturalWidth / rect.width\<close>, on both axes; and a
  drag by (10, 10) screen pixels, when the displayed width is half the natural width,
  moves the origin by (20, 20).
\<close>

theorem handleMouseMove_scaled_delta:
  "(\<forall>ed img rectWidth clientX clientY.
      isDragging ed \<and> imgElement ed = Some img \<and> rectWidth \<noteq> 0 \<longrightarrow>
      crop (handleMouseMove ed clientX clientY (Some rectWidth))
        = (crop ed)\<lparr>crop_x := fst (startCropPos ed)
                        + (clientX - fst (dragStart ed)) * (real (naturalWidth img) / rectWidth),
                     crop_y := snd (startCropPos ed)
                        + (clientY - snd (dragStart ed)) * (real (naturalWidth img) / rectWidth)\<rparr>)
   \<and> (\<forall>ed img startX startY.
      imgElement ed = Some img \<and> 0 < naturalWidth img \<longrightarrow>
      crop (editorRun ed [MouseDown startX startY,
                          MouseMove (startX + 10) (startY + 10)
                            (Some (real (naturalWidth img) / 2))])
        = (crop ed)\<lparr>crop_x := crop_x (crop ed) + 20, crop_y := crop_y (crop ed) + 20\<rparr>)"
  by (auto simp add: handleMouseMove_def handleMouseDown_def Let_def)

text \<open>
  The theorem at a drag from (300, 200) to (310, 210) over the 1000 pixel wide image
  shown 500 pixels wide: the origin moves from (180, 80) to (200, 100).
\<close>

theorem handleMouseMove_scaled_delta_witness:
  "crop (handleMouseMove (handleMouseDown exampleEditor 300 200) 310 210 (Some 500))
     = \<lparr>crop_x = 200, crop_y = 100, crop_size = 440\<rparr>"
  using handleMouseMove_scaled_delta
          [THEN conjunct1, rule_format,
           of "handleMouseDown exampleEditor 300 200" exampleImage 500 310 210]
  by (simp add: exampleEditor_def exampleImage_def initEditor_def onImgLoad_def
        handleMouseDown_def)

lemma editorStep_drag_size:
  "isDragEvent e \<Longrightarrow> crop_size (crop (editorStep ed e)) = crop_size (crop ed)"
  by (cases e)
     (simp_all add: handleMouseDown_def handleMouseMove_def handleMouseUp_def Let_def
        split: option.splits bool.splits)

text \<open>
  Claim C10. A drag changes the origin of the crop rectangle and never its size: after
  any sequence of mouse-down, mouse-move and mouse-up events, with any positions and any
  container width, the size is the size before.
\<close>

theorem drag_keeps_size:
  "\<forall>e \<in> set es. isDragEvent e \<Longrightarrow> crop_size (crop (editorRun ed es)) = crop_size (crop ed)"
proof (induction es arbitrary: ed)
  case Nil
  show ?case by simp
next
  case (Cons e es)
  have "crop_size (crop (editorRun (editorStep ed e) es)) = crop_size (crop (editorStep ed e))"
    using Cons by simp
  also have "\<dots> = crop_size (crop ed)"
    using Cons.prems by (simp add: editorStep_drag_size)
  finally show ?case by simp
qed

text \<open>
  The theorem at a drag of two moves, a release and a move after the release: the origin
  ends at (80, 200) and the size is still 440.
\<close>

theorem drag_keeps_size_witness:
  "crop (editorRun exampleEditor
          [MouseDown 300 200, MouseMove 310 210 (Some 500), MouseMove 250 260 (Some 500),
           MouseUp, MouseMove 0 0 (Some 500)])
     = \<lparr>crop_x = 80, crop_y = 200, crop_size = 440\<rparr>
   \<and> crop_size (crop exampleEditor) = 440"
  using drag_keeps_size
          [of "[MouseDown 300 200, MouseMove 310 210 (Some 500), MouseMove 250 260 (Some 500),
                MouseUp, MouseMove 0 0 (Some 500)]" exampleEditor]
  by (simp add: exampleEditor_def exampleImage_def initEditor_def onImgLoad_def
        handleMouseDown_def handleMouseMove_def handleMouseUp_def)

section \<open>Properties of the render\<close>

lemma min_plus_abs: "min s (s + sl) + \<bar>sl\<bar> = max s (s + (sl::real))"
  by (simp add: min_def max_def abs_if)

lemma paintsAxis_outside:
  assumes "outsideAxis n s sl"
  shows "\<not> paintsAxis n s sl d dl i"
proof -
  have "min (min s (s + sl) + \<bar>sl\<bar>) n \<le> max (min s (s + sl)) 0"
    using assms unfolding outsideAxis_def
  proof
    assume "max s (s + sl) \<le> 0"
    then have "min s (s + sl) + \<bar>sl\<bar> \<le> 0"
      by (simp only: min_plus_abs)
    then have "min (min s (s + sl) + \<bar>sl\<bar>) n \<le> 0"
      by (simp add: min.coboundedI1)
    then show ?thesis
      by (simp add: max.coboundedI2)
  next
    assume "n \<le> min s (s + sl)"
    then have "n \<le> max (min s (s + sl)) 0"
      by (simp add: max.coboundedI1)
    then show ?thesis
      by (simp add: min.coboundedI2)
  qed
  then have "\<not> max (min s (s + sl)) 0 < min (min s (s + sl) + \<bar>sl\<bar>) n"
    by (simp only: not_less)
  then show ?thesis
    unfolding paintsAxis_def Let_def by blast
qed

lemma paintsAxis_pixel_outside:
  assumes "sl \<noteq> 0" "i < out" "pixelOutsideAxis n s sl out i"
  shows "\<not> paintsAxis n s sl 0 (real out) i"
proof
  assume p: "paintsAxis n s sl 0 (real out) i"
  let ?start = "min s (s + sl)"
  let ?dst = "\<lambda>u. min 0 (0 + real out) + (u - ?start) / \<bar>sl\<bar> * \<bar>real out\<bar>"
  have len: "0 < \<bar>sl\<bar>" using assms(1) by simp
  have out: "0 < real out" using assms(2) by simp
  have mono: "\<And>u v. u \<le> v \<Longrightarrow> ?dst u \<le> ?dst v"
    using len out by (simp add: divide_right_mono mult_right_mono)
  have d0: "?dst (?start + real i * \<bar>sl\<bar> / real out) = real i"
    using len out by simp
  have d1: "?dst (?start + (real i + 1) * \<bar>sl\<bar> / real out) = real i + 1"
    using len out by simp
  let ?lo = "max ?start 0" and ?hi = "min (?start + \<bar>sl\<bar>) n"
  from p have a: "real i < ?dst ?hi" and b: "?dst ?lo < real i + 1"
    unfolding paintsAxis_def Let_def by blast+
  from assms(3)
  have "?start + (real i + 1) * \<bar>sl\<bar> / real out \<le> 0
        \<or> n \<le> ?start + real i * \<bar>sl\<bar> / real out"
    unfolding pixelOutsideAxis_def sourceOfPixel_def Let_def by (simp only: prod.case)
  then show False
  proof
    assume "?start + (real i + 1) * \<bar>sl\<bar> / real out \<le> 0"
    then have "?start + (real i + 1) * \<bar>sl\<bar> / real out \<le> ?lo" by simp
    from mono [OF this] d1 b show False by simp
  next
    assume "n \<le> ?start + real i * \<bar>sl\<bar> / real out"
    then have "?hi \<le> ?start + real i * \<bar>sl\<bar> / real out" by simp
    from mono [OF this] d0 a show False by simp
  qed
qed

lemma paints_outsideImage:
  "outsideImage img r \<Longrightarrow>
   \<not> paints img (crop_x r) (crop_y r) (crop_size r) (crop_size r) dx dy dw dh i j"
  unfolding outsideImage_def paints_def Let_def
  using paintsAxis_outside by auto

lemma paints_pixelOutside:
  assumes "i < out" "j < out" "pixelOutside img r out i j"
  shows "\<not> paints img (crop_x r) (crop_y r) (crop_size r) (crop_size r)
            0 0 (real out) (real out) i j"
proof (cases "crop_size r = 0")
  case True
  then show ?thesis by (simp add: paints_def)
next
  case False
  from assms(3) show ?thesis
    unfolding pixelOutside_def
  proof
    assume "pixelOutsideAxis (real (naturalWidth img)) (crop_x r) (crop_size r) out i"
    from paintsAxis_pixel_outside [OF False assms(1) this]
    show ?thesis by (simp add: paints_def Let_def)
  next
    assume "pixelOutsideAxis (real (naturalHeight img)) (crop_y r) (crop_size r) out j"
    from paintsAxis_pixel_outside [OF False assms(2) this]
    show ?thesis by (simp add: paints_def Let_def)
  qed
qed

lemma performCrop_filled_width: "canvas_width (performCrop_filled out) = out"
  by (simp add: performCrop_filled_def fillRect_def setWidth_def setHeight_def createCanvas_def Let_def)

lemma performCrop_filled_height: "canvas_height (performCrop_filled out) = out"
  by (simp add: performCrop_filled_def fillRect_def setWidth_def setHeight_def createCanvas_def Let_def)

lemma performCrop_filled_white:
  "i < out \<Longrightarrow> j < out \<Longrightarrow> pixels (performCrop_filled out) i j = white"
  by (simp add: performCrop_filled_def fillRect_def setWidth_def setHeight_def createCanvas_def Let_def)

lemma drawImage_width: "canvas_width (drawImage br img sx sy sw sh dx dy dw dh cv) = canvas_width cv"
  by (simp add: drawImage_def)

lemma drawImage_height: "canvas_height (drawImage br img sx sy sw sh dx dy dw dh cv) = canvas_height cv"
  by (simp add: drawImage_def)

lemma drawImage_unpainted:
  "\<not> paints img sx sy sw sh dx dy dw dh i j \<Longrightarrow>
   pixels (drawImage br img sx sy sw sh dx dy dw dh cv) i j = pixels cv i j"
  by (simp add: drawImage_def)

lemma performCrop_ok:
  "loadImage br src = Inr img \<Longrightarrow> getContext2d br \<Longrightarrow>
   performCrop br src r out = Inr (toDataURL br (performCrop_canvas br img r out))"
  by (simp add: performCrop_def)

text \<open>
  Claim C8. \<open>performCrop\<close> fills the whole output surface with opaque white before it
  draws: the canvas that \<open>drawImage\<close> draws on is \<open>outputSize\<close> by \<open>outputSize\<close> and white
  at every pixel. When the image loads and there is a context, the result is the
  encoding of that canvas after the drawing; it keeps the requested size, it is white at
  every pixel when the crop rectangle lies entirely outside the source image, and it is
  white at every pixel whose part of the crop rectangle lies outside the source image.
  A crop rectangle of negative size is the square between its two corners, drawn in the
  image's own direction.
\<close>

theorem performCrop_white_outside:
  "(\<forall>outputSize.
      canvas_width (performCrop_filled outputSize) = outputSize \<and>
      canvas_height (performCrop_filled outputSize) = outputSize \<and>
      (\<forall>i j. i < outputSize \<and> j < outputSize \<longrightarrow>
         pixels (performCrop_filled outputSize) i j = white))
   \<and> (\<forall>br imageSrc img r outputSize.
      loadImage br imageSrc = Inr img \<and> getContext2d br \<longrightarrow>
      performCrop br imageSrc r outputSize
        = Inr (toDataURL br (performCrop_canvas br img r outputSize)) \<and>
      performCrop_canvas br img r outputSize
        = drawImage br img (crop_x r) (crop_y r) (crop_size r) (crop_size r)
            0 0 (real outputSize) (real outputSize) (performCrop_filled outputSize) \<and>
      canvas_width (performCrop_canvas br img r outputSize) = outputSize \<and>
      canvas_height (performCrop_canvas br img r outputSize) = outputSize \<and>
      (outsideImage img r \<longrightarrow>
         (\<forall>i j. i < outputSize \<and> j < outputSize \<longrightarrow>
            pixels (performCrop_canvas br img r outputSize) i j = white)) \<and>
      (\<forall>i j. i < outputSize \<and> j < outputSize \<and> pixelOutside img r outputSize i j \<longrightarrow>
         pixels (performCrop_canvas br img r outputSize) i j = white))"
proof -
  have filled: "\<And>outputSize i j. i < outputSize \<and> j < outputSize \<longrightarrow>
                  pixels (performCrop_filled outputSize) i j = white"
    by (simp add: performCrop_filled_white)
  have outside: "\<And>br img r outputSize i j.
      outsideImage img r \<Longrightarrow> i < outputSize \<and> j < outputSize \<longrightarrow>
      pixels (performCrop_canvas br img r outputSize) i j = white"
    by (simp add: performCrop_canvas_def drawImage_unpainted paints_outsideImage
          performCrop_filled_white)
  have part: "\<And>br img r outputSize i j.
      i < outputSize \<and> j < outputSize \<and> pixelOutside img r outputSize i j \<longrightarrow>
      pixels (performCrop_canvas br img r outputSize) i j = white"
    by (simp add: performCrop_canvas_def drawImage_unpainted paints_pixelOutside
          performCrop_filled_white)
  show ?thesis
    using filled outside part
    by (simp add: performCrop_ok performCrop_canvas_def drawImage_width drawImage_height
          performCrop_filled_width performCrop_filled_height)
qed

text \<open>
  The theorem at the crop \<open>{x: -500, y: 0, size: 400}\<close>, which lies to the left of the
  1000 by 1000 image (pixel (17, 1000) of the 1024 by 1024 output is white), at the crop
  \<open>{x: -220, y: 80, size: 440}\<close>, whose left half lies outside (pixel (100, 600) is
  white), and at the crop \<open>{x: 2, y: 5, size: -4}\<close> of the 10 by 10 image, which names
  the square from (-2, 1) to (2, 5): its left half lies outside, and pixel (0, 1) of the
  4 by 4 output is white.
\<close>

theorem performCrop_white_outside_witness:
  "performCrop exampleBrowser ''data:image/png;base64,photo.png''
       \<lparr>crop_x = - 500, crop_y = 0, crop_size = 400\<rparr> 1024
     = Inr (toDataURL exampleBrowser
             (performCrop_canvas exampleBrowser exampleImage
                \<lparr>crop_x = - 500, crop_y = 0, crop_size = 400\<rparr> 1024))
   \<and> pixels (performCrop_canvas exampleBrowser exampleImage
                \<lparr>crop_x = - 500, crop_y = 0, crop_size = 400\<rparr> 1024) 17 1000 = white
   \<and> pixels (performCrop_canvas exampleBrowser exampleImage
                \<lparr>crop_x = - 220, crop_y = 80, crop_size = 440\<rparr> 1024) 100 600 = white
   \<and> pixels (performCrop_canvas smallBrowser smallImage
                \<lparr>crop_x = 2, crop_y = 5, crop_size = - 4\<rparr> 4) 0 1 = white"
proof -
  have load: "loadImage exampleBrowser ''data:image/png;base64,photo.png'' = Inr exampleImage
              \<and> getContext2d exampleBrowser"
    by (simp add: loadImage_def exampleBrowser_def)
  have load_small: "loadImage smallBrowser ''data:image/png;base64,small.png'' = Inr smallImage
              \<and> getContext2d smallBrowser"
    by (simp add: loadImage_def smallBrowser_def exampleBrowser_def)
  have outside: "outsideImage exampleImage \<lparr>crop_x = - 500, crop_y = 0, crop_size = 400\<rparr>"
    by (simp add: outsideImage_def outsideAxis_def)
  have part: "pixelOutside exampleImage \<lparr>crop_x = - 220, crop_y = 80, crop_size = 440\<rparr>
                1024 100 600"
    by (simp add: pixelOutside_def pixelOutsideAxis_def sourceOfPixel_def)
  have part_small: "pixelOutside smallImage \<lparr>crop_x = 2, crop_y = 5, crop_size = - 4\<rparr> 4 0 1"
    by (simp add: pixelOutside_def pixelOutsideAxis_def sourceOfPixel_def)
  note left = performCrop_white_outside
                [THEN conjunct2, rule_format, OF load,
                 where r = "\<lparr>crop_x = - 500, crop_y = 0, crop_size = 400\<rparr>"
                   and outputSize = 1024]
  note half = performCrop_white_outside
                [THEN conjunct2, rule_format, OF load,
                 where r = "\<lparr>crop_x = - 220, crop_y = 80, crop_size = 440\<rparr>"
                   and outputSize = 1024]
  note negative = performCrop_white_outside
                [THEN conjunct2, rule_format, OF load_small,
                 where r = "\<lparr>crop_x = 2, crop_y = 5, crop_size = - 4\<rparr>"
                   and outputSize = 4]
  have in_left: "(17::nat) < 1024 \<and> (1000::nat) < 1024"
    by simp
  have in_half: "(100::nat) < 1024 \<and> (600::nat) < 1024"
    by simp
  have in_small: "(0::nat) < 4 \<and> (1::nat) < 4"
    by simp
  have "pixels (performCrop_canvas exampleBrowser exampleImage
                  \<lparr>crop_x = - 500, crop_y = 0, crop_size = 400\<rparr> 1024) 17 1000 = white"
    using left outside in_left by blast
  moreover
  have "pixels (performCrop_canvas exampleBrowser exampleImage
                  \<lparr>crop_x = - 220, crop_y = 80, crop_size = 440\<rparr> 1024) 100 600 = white"
    using half part in_half by blast
  moreover
  have "pixels (performCrop_canvas smallBrowser smallImage
                  \<lparr>crop_x = 2, crop_y = 5, crop_size = - 4\<rparr> 4) 0 1 = white"
    using negative part_small in_small by blast
  ultimately show ?thesis
    using left by blast
qed

text \<open>
  A negative size does not mirror the drawing. For the crop \<open>{x: 2, y: 5, size: -4}\<close> of
  the 10 by 10 image, the columns of the source from 0 to 2 are drawn on the right half
  of the 4 by 4 output: pixel (3, 1) is painted, with the colour the browser's filter
  gives it, and pixel (0, 1) is not.
\<close>

lemma drawImage_negative_size_direction:
  "paints smallImage 2 5 (- 4) (- 4) 0 0 4 4 3 1
   \<and> \<not> paints smallImage 2 5 (- 4) (- 4) 0 0 4 4 0 1
   \<and> \<not> pixelOutside smallImage \<lparr>crop_x = 2, crop_y = 5, crop_size = - 4\<rparr> 4 3 1
   \<and> pixels (performCrop_canvas smallBrowser smallImage
               \<lparr>crop_x = 2, crop_y = 5, crop_size = - 4\<rparr> 4) 3 1 = RGBA 200 30 30 255"
  by (simp add: paints_def paintsAxis_def pixelOutside_def pixelOutsideAxis_def
        sourceOfPixel_def performCrop_canvas_def performCrop_filled_def drawImage_def
        fillRect_def setWidth_def setHeight_def createCanvas_def smallImage_def
        smallBrowser_def exampleBrowser_def Let_def)

section \<open>Properties of the download name\<close>

lemma isAlnumOrHyphen_iff: "isAlnumOrHyphen c = (c \<in> set alnumHyphenChars)"
  by (cases c) (simp add: isAlnumOrHyphen_def alnumHyphenChars_def Let_def)

lemma sanitize_filter: "sanitize s = filter (\<lambda>c. c \<in> set alnumHyphenChars) s"
  by (simp add: sanitize_def isAlnumOrHyphen_iff [abs_def])

lemma stripExtension_match:
  "ext \<noteq> [] \<Longrightarrow> list_all (\<lambda>d. d \<noteq> CHR ''/'' \<and> d \<noteq> CHR ''.'') ext \<Longrightarrow>
   stripExtension (base @ CHR ''.'' # ext) = base"
  by (induction base) simp_all

lemma stripExtension_cases:
  "stripExtension name = name \<or>
   (\<exists>ext. ext \<noteq> [] \<and> list_all (\<lambda>d. d \<noteq> CHR ''/'' \<and> d \<noteq> CHR ''.'') ext
      \<and> name = stripExtension name @ CHR ''.'' # ext)"
proof (induction name)
  case Nil
  show ?case by simp
next
  case (Cons c cs)
  show ?case
  proof (cases "c = CHR ''.'' \<and> cs \<noteq> [] \<and> list_all (\<lambda>d. d \<noteq> CHR ''/'' \<and> d \<noteq> CHR ''.'') cs")
    case True
    then show ?thesis by auto
  next
    case False
    then have "stripExtension (c # cs) = c # stripExtension cs" by auto
    with Cons show ?thesis by auto
  qed
qed

lemma stripExtension_no_match:
  assumes "\<not> (\<exists>base ext. name = base @ CHR ''.'' # ext \<and> ext \<noteq> []
              \<and> list_all (\<lambda>d. d \<noteq> CHR ''/'' \<and> d \<noteq> CHR ''.'') ext)"
  shows "stripExtension name = name"
  using stripExtension_cases [of name] assms by blast

lemma processImage_originalFileName:
  "originalFileName (processImage br a b) = originalFileName a"
  by (simp add: processImage_def processImage_catch_def Let_def split: sum.splits)

lemma handleFileUpload_originalFileName:
  "originalFileName (handleFileUpload br a (Some fileName)) = stripExtension fileName"
  by (simp add: handleFileUpload_def Let_def processImage_originalFileName split: sum.splits)

lemma handleDownload_name:
  "croppedImage a = Some href \<Longrightarrow>
   handleDownload a =
     Some (href, originalFileName a
                 @ (case garmentDetails a of
                      None \<Rightarrow> []
                    | Some d \<Rightarrow> if color d = [] then [] else ''_'' @ sanitize (color d))
                 @ ''.jpg'')"
  by (simp add: handleDownload_def Let_def split: option.splits)

text \<open>
  Claim C9. The upload stores the file name with its extension stripped: a last dot with
  one or more characters after it, none of them a dot or a slash, is removed together
  with what follows it, and a name without such an extension is kept. The download name
  is that stored name, then, when a colour was detected, an underscore and the colour
  with every character removed that is not alphanumeric or a hyphen, then \<open>.jpg\<close>. The
  file name \<open>photo.png\<close> with the colour \<open>Navy Blue!\<close> gives \<open>photo_NavyBlue.jpg\<close>.
\<close>

theorem download_name:
  "(\<forall>br a fileName.
      originalFileName (handleFileUpload br a (Some fileName)) = stripExtension fileName)
   \<and> (\<forall>base ext.
      ext \<noteq> [] \<and> list_all (\<lambda>d. d \<noteq> CHR ''/'' \<and> d \<noteq> CHR ''.'') ext \<longrightarrow>
      stripExtension (base @ ''.'' @ ext) = base)
   \<and> (\<forall>name.
      \<not> (\<exists>base ext. name = base @ ''.'' @ ext \<and> ext \<noteq> []
            \<and> list_all (\<lambda>d. d \<noteq> CHR ''/'' \<and> d \<noteq> CHR ''.'') ext) \<longrightarrow>
      stripExtension name = name)
   \<and> (\<forall>s. sanitize s = filter (\<lambda>c. c \<in> set alnumHyphenChars) s)
   \<and> (\<forall>a href.
      croppedImage a = Some href \<longrightarrow>
      handleDownload a =
        Some (href, originalFileName a
                    @ (case garmentDetails a of
                         None \<Rightarrow> []
                       | Some d \<Rightarrow> if color d = [] then [] else ''_'' @ sanitize (color d))
                    @ ''.jpg''))
   \<and> (\<forall>br a0 a href d.
      a = handleFileUpload br a0 (Some ''photo.png'') \<and> croppedImage a = Some href \<and>
      garmentDetails a = Some d \<and> color d = ''Navy Blue!'' \<longrightarrow>
      handleDownload a = Some (href, ''photo_NavyBlue.jpg''))"
proof (intro conjI allI impI)
  fix br a0 a href d
  assume h: "a = handleFileUpload br a0 (Some ''photo.png'') \<and> croppedImage a = Some href \<and>
      garmentDetails a = Some d \<and> color d = ''Navy Blue!''"
  then have a: "a = handleFileUpload br a0 (Some ''photo.png'')"
    and cropped: "croppedImage a = Some href"
    and details: "garmentDetails a = Some d"
    and col: "color d = ''Navy Blue!''"
    by blast+
  have "originalFileName a = stripExtension ''photo.png''"
    unfolding a by (rule handleFileUpload_originalFileName)
  then have name: "originalFileName a = ''photo''"
    by simp
  have clean: "sanitize ''Navy Blue!'' = ''NavyBlue''"
    by (simp add: sanitize_def isAlnumOrHyphen_def)
  show "handleDownload a = Some (href, ''photo_NavyBlue.jpg'')"
    by (simp add: handleDownload_name [OF cropped] details col name clean)
next
  fix name :: string
  assume "\<not> (\<exists>base ext. name = base @ ''.'' @ ext \<and> ext \<noteq> []
            \<and> list_all (\<lambda>d. d \<noteq> CHR ''/'' \<and> d \<noteq> CHR ''.'') ext)"
  then show "stripExtension name = name"
    using stripExtension_no_match [of name] by simp
qed (simp_all add: handleFileUpload_originalFileName stripExtension_match sanitize_filter
       handleDownload_name)

text \<open>
  The theorem at the file name \<open>archive.tar.gz\<close>, whose last extension only is stripped,
  and at an upload of \<open>photo.png\<close> in the browser in which every call succeeds: the
  detected colour is \<open>Navy Blue!\<close> and the download name is \<open>photo_NavyBlue.jpg\<close>.
\<close>

theorem download_name_witness:
  "stripExtension ''archive.tar.gz'' = ''archive.tar''
   \<and> handleDownload (handleFileUpload exampleBrowser initialApp (Some ''photo.png''))
       = Some (''data:image/jpeg;base64,image'', ''photo_NavyBlue.jpg'')"
proof -
  have "stripExtension (''archive.tar'' @ ''.'' @ ''gz'') = ''archive.tar''"
    using download_name [THEN conjunct2, THEN conjunct1, rule_format, of "''gz''" "''archive.tar''"]
    by simp
  then have strip: "stripExtension ''archive.tar.gz'' = ''archive.tar''"
    by simp
  have up: "croppedImage (handleFileUpload exampleBrowser initialApp (Some ''photo.png''))
              = Some ''data:image/jpeg;base64,image''
            \<and> garmentDetails (handleFileUpload exampleBrowser initialApp (Some ''photo.png''))
              = Some exampleDetails"
    by (simp add: handleFileUpload_def fileToBase64_def loadImage_def processImage_def
          detectGarment_def performCrop_def performCrop_canvas_def performCrop_filled_def drawImage_def fillRect_def
          setWidth_def setHeight_def createCanvas_def paints_def paintsAxis_def
          calculateSmartCrop_def exampleBrowser_def exampleDetails_def exampleImage_def
          initialApp_def white_def Let_def)
  have col: "color exampleDetails = ''Navy Blue!''"
    by (simp add: exampleDetails_def)
  from download_name
         [THEN conjunct2, THEN conjunct2, THEN conjunct2, THEN conjunct2, THEN conjunct2,
          rule_format,
          of "handleFileUpload exampleBrowser initialApp (Some ''photo.png'')"
             exampleBrowser initialApp "''data:image/jpeg;base64,image''" exampleDetails]
       up col
  have "handleDownload (handleFileUpload exampleBrowser initialApp (Some ''photo.png''))
          = Some (''data:image/jpeg;base64,image'', ''photo_NavyBlue.jpg'')"
    by blast
  with strip show ?thesis by blast
qed

section \<open>Properties of the session\<close>

lemma uiRun_append: "uiRun br s (es @ fs) = uiRun br (uiRun br s es) fs"
  by (induction es arbitrary: s) simp_all

lemma uiRun_edits:
  "editor s = Some ed \<Longrightarrow>
   uiRun br s (map Edit es) = s\<lparr>editor := Some (editorRun ed es)\<rparr>"
proof (induction es arbitrary: s ed)
  case Nil
  then show ?case by simp
next
  case (Cons e es)
  have "editor (s\<lparr>editor := Some (editorStep ed e)\<rparr>) = Some (editorStep ed e)"
    by simp
  from Cons.IH [OF this] Cons.prems show ?case
    by simp
qed

lemma handleManualCropConfirm_currentCrop:
  "sourceImage a \<noteq> None \<Longrightarrow>
   currentCrop (handleManualCropConfirm br a newCrop) = Some newCrop"
  by (auto simp add: handleManualCropConfirm_def Let_def split: sum.splits)

text \<open>
  Claim C6. While the editor is open, no sequence of its events (drags, resizes, image
  load) changes the app's state, so the committed crop rectangle stays as it was; a cancel
  after the edits changes nothing of the app but its state, which becomes \<open>SUCCESS\<close>,
  and closes the editor, and an editor opened again starts from the committed rectangle;
  a confirm after the edits makes the edited rectangle the committed one.
\<close>

theorem editor_commits_on_confirm_only:
  assumes "editor s = Some ed"
  shows "app (uiRun br s (map Edit es)) = app s \<and>
         editor (uiRun br s (map Edit es)) = Some (editorRun ed es) \<and>
         app (uiRun br s (map Edit es @ [Cancel])) = (app s)\<lparr>appState := SUCCESS\<rparr> \<and>
         currentCrop (app (uiRun br s (map Edit es @ [Cancel]))) = currentCrop (app s) \<and>
         editor (uiRun br s (map Edit es @ [Cancel])) = None \<and>
         (croppedImage (app s) \<noteq> None \<and> sourceImage (app s) \<noteq> None \<and>
          currentCrop (app s) = Some committed \<longrightarrow>
            editor (uiRun br s (map Edit es @ [Cancel, AdjustCrop]))
              = Some (initEditor committed)) \<and>
         (sourceImage (app s) \<noteq> None \<longrightarrow>
            currentCrop (app (uiRun br s (map Edit es @ [Confirm])))
              = Some (crop (editorRun ed es)))"
proof -
  have edits: "uiRun br s (map Edit es) = s\<lparr>editor := Some (editorRun ed es)\<rparr>"
    using assms by (rule uiRun_edits)
  have cancel: "uiRun br s (map Edit es @ [Cancel])
                  = \<lparr>app = (app s)\<lparr>appState := SUCCESS\<rparr>,
                     editor = mountEditor ((app s)\<lparr>appState := SUCCESS\<rparr>)\<rparr>"
    by (simp add: uiRun_append edits Let_def)
  have confirm: "app (uiRun br s (map Edit es @ [Confirm]))
                  = handleManualCropConfirm br (app s) (crop (editorRun ed es))"
    by (simp add: uiRun_append edits Let_def)
  have unmounted: "mountEditor ((app s)\<lparr>appState := SUCCESS\<rparr>) = None"
    by (simp add: mountEditor_def)
  have reopen: "uiRun br s (map Edit es @ [Cancel, AdjustCrop])
                  = uiStep br (uiRun br s (map Edit es @ [Cancel])) AdjustCrop"
    using uiRun_append [of br s "map Edit es @ [Cancel]" "[AdjustCrop]"] by simp
  have reopened: "croppedImage (app s) \<noteq> None \<and> sourceImage (app s) \<noteq> None \<and>
                  currentCrop (app s) = Some committed \<longrightarrow>
                  editor (uiRun br s (map Edit es @ [Cancel, AdjustCrop]))
                    = Some (initEditor committed)"
    by (auto simp add: reopen cancel unmounted mountEditor_def Let_def)
  show ?thesis
    using reopened
    by (simp add: edits cancel confirm unmounted handleManualCropConfirm_currentCrop)
qed

text \<open>
  The theorem at the open editor on \<open>{x: 180, y: 80, size: 440}\<close>, after a drag by
  (10, 10) screen pixels and a resize to 300: a cancel leaves the committed rectangle,
  and a confirm commits \<open>{x: 270, y: 170, size: 300}\<close>.
\<close>

theorem editor_commits_on_confirm_only_witness:
  "currentCrop (app (uiRun exampleBrowser exampleSession
      (map Edit [ImgLoad exampleImage, MouseDown 300 200, MouseMove 310 210 (Some 500),
                 MouseUp, SizeChange 300])))
     = Some \<lparr>crop_x = 180, crop_y = 80, crop_size = 440\<rparr>
   \<and> currentCrop (app (uiRun exampleBrowser exampleSession
      (map Edit [ImgLoad exampleImage, MouseDown 300 200, MouseMove 310 210 (Some 500),
                 MouseUp, SizeChange 300] @ [Cancel])))
     = Some \<lparr>crop_x = 180, crop_y = 80, crop_size = 440\<rparr>
   \<and> currentCrop (app (uiRun exampleBrowser exampleSession
      (map Edit [ImgLoad exampleImage, MouseDown 300 200, MouseMove 310 210 (Some 500),
                 MouseUp, SizeChange 300] @ [Confirm])))
     = Some \<lparr>crop_x = 270, crop_y = 170, crop_size = 300\<rparr>"
proof -
  have mounted: "editor exampleSession = Some exampleEditor"
    by (simp add: exampleSession_def)
  have src: "sourceImage (app exampleSession) \<noteq> None"
    by (simp add: exampleSession_def exampleApp_def)
  have committed: "currentCrop (app exampleSession)
                     = Some \<lparr>crop_x = 180, crop_y = 80, crop_size = 440\<rparr>"
    by (simp add: exampleSession_def exampleApp_def)
  have edited: "crop (editorRun exampleEditor
                   [ImgLoad exampleImage, MouseDown 300 200, MouseMove 310 210 (Some 500),
                    MouseUp, SizeChange 300])
                  = \<lparr>crop_x = 270, crop_y = 170, crop_size = 300\<rparr>"
    by (simp add: exampleEditor_def exampleImage_def initEditor_def onImgLoad_def
          handleMouseDown_def handleMouseMove_def handleMouseUp_def handleSizeChange_def)
  note inst = editor_commits_on_confirm_only
                [OF mounted, of exampleBrowser
                   "[ImgLoad exampleImage, MouseDown 300 200, MouseMove 310 210 (Some 500),
                     MouseUp, SizeChange 300]"]
  note during = inst [THEN conjunct1]
  note cancelled = inst [THEN conjunct2, THEN conjunct2, THEN conjunct2, THEN conjunct1]
  note confirmed = inst [THEN conjunct2, THEN conjunct2, THEN conjunct2, THEN conjunct2,
                         THEN conjunct2, THEN conjunct2, rule_format, OF src]
  show ?thesis
    by (simp only: during cancelled confirmed committed edited)
qed

section \<open>Properties of the failures\<close>

lemma detectGarment_failed:
  "remoteDetect br b = Inl err \<Longrightarrow>
   detectGarment br b
     = Inl (Error ''Failed to detect garment details. Please try a clearer image.'')"
  by (simp add: detectGarment_def)

lemma detectGarment_ok: "remoteDetect br b = Inr d \<Longrightarrow> detectGarment br b = Inr d"
  by (simp add: detectGarment_def)

lemma handleFileUpload_read_failed:
  "fileToBase64 br fileName = Inl err \<Longrightarrow>
   handleFileUpload br a (Some fileName)
     = a\<lparr>appState := ERROR, croppedImage := None, garmentDetails := None,
          currentCrop := None, errorMsg := Some ''Failed to load image file.'',
          originalFileName := stripExtension fileName\<rparr>"
  by (simp add: handleFileUpload_def Let_def)

lemma processImage_detect_failed:
  "remoteDetect br base64 = Inl err \<Longrightarrow>
   processImage br a base64
     = a\<lparr>appState := ERROR,
          errorMsg := Some ''Failed to detect garment details. Please try a clearer image.''\<rparr>"
  by (simp add: processImage_def detectGarment_failed processImage_catch_def messageOr_def)

lemma loadImage_rejects: "loadImage br src = Inl err \<Longrightarrow> err = RejectedEvent"
  by (simp add: loadImage_def split: option.splits)

lemma processImage_decode_failed:
  assumes "remoteDetect br base64 = Inr details \<and> loadImage br base64 = Inl err"
  shows "processImage br a base64
           = a\<lparr>appState := ERROR, garmentDetails := Some details,
                errorMsg := Some ''Failed to process image.''\<rparr>"
proof -
  have "err = RejectedEvent"
    using assms loadImage_rejects by blast
  with assms show ?thesis
    by (simp add: processImage_def detectGarment_ok processImage_catch_def messageOr_def Let_def)
qed

lemma processImage_render_failed:
  "remoteDetect br base64 = Inr details \<and> loadImage br base64 = Inr img \<and>
   performCrop br base64
     (calculateSmartCrop (case textureBox details of Some t \<Rightarrow> t | None \<Rightarrow> box details)
        (real (naturalWidth img)) (real (naturalHeight img))) 1024 = Inl err \<Longrightarrow>
   processImage br a base64
     = a\<lparr>appState := ERROR, garmentDetails := Some details,
          currentCrop :=
            Some (calculateSmartCrop
                    (case textureBox details of Some t \<Rightarrow> t | None \<Rightarrow> box details)
                    (real (naturalWidth img)) (real (naturalHeight img))),
          errorMsg := Some (messageOr err ''Failed to process image.'')\<rparr>"
  by (simp add: processImage_def detectGarment_ok processImage_catch_def Let_def)

text \<open>
  Claim C7 says that a failure leaves no partially updated state and keeps no partial
  results. In the browser that gives no canvas context, the upload of \<open>photo.png\<close> ends
  in the error state with the detection results and the derived crop rectangle
  committed, and with no cropped image.
\<close>

theorem render_failure_keeps_detection_counterexample:
  "appState (handleFileUpload noContextBrowser initialApp (Some ''photo.png'')) = ERROR
   \<and> garmentDetails (handleFileUpload noContextBrowser initialApp (Some ''photo.png''))
       = Some exampleDetails
   \<and> currentCrop (handleFileUpload noContextBrowser initialApp (Some ''photo.png''))
       = Some \<lparr>crop_x = 180, crop_y = 80, crop_size = 440\<rparr>
   \<and> croppedImage (handleFileUpload noContextBrowser initialApp (Some ''photo.png'')) = None
   \<and> errorMsg (handleFileUpload noContextBrowser initialApp (Some ''photo.png''))
       = Some ''Could not get canvas context''"
  by (simp add: handleFileUpload_def fileToBase64_def loadImage_def processImage_def
        processImage_catch_def messageOr_def
        detectGarment_def performCrop_def calculateSmartCrop_def noContextBrowser_def
        exampleBrowser_def exampleDetails_def exampleImage_def initialApp_def Let_def)

text \<open>
  Claim C7, amended. Every failure of an upload attempt ends the attempt in the error
  state with a message, and no cropped image is set; what the steps before the failure
  have set stays. A failure to read the file leaves the results as the upload handler
  cleared them, with the new file name and the previous source image. A detection failure
  changes the message and the state only. A failure to decode the image after a
  successful detection keeps the detection results, and a failure to render keeps the
  detection results and the derived crop rectangle.
\<close>

theorem failure_states:
  "(\<forall>br a fileName err.
      fileToBase64 br fileName = Inl err \<longrightarrow>
      handleFileUpload br a (Some fileName)
        = a\<lparr>appState := ERROR, croppedImage := None, garmentDetails := None,
             currentCrop := None, errorMsg := Some ''Failed to load image file.'',
             originalFileName := stripExtension fileName\<rparr>)
   \<and> (\<forall>br a base64 err.
      remoteDetect br base64 = Inl err \<longrightarrow>
      processImage br a base64
        = a\<lparr>appState := ERROR,
             errorMsg :=
               Some ''Failed to detect garment details. Please try a clearer image.''\<rparr>)
   \<and> (\<forall>br a base64 details err.
      remoteDetect br base64 = Inr details \<and> loadImage br base64 = Inl err \<longrightarrow>
      processImage br a base64
        = a\<lparr>appState := ERROR, garmentDetails := Some details,
             errorMsg := Some ''Failed to process image.''\<rparr>)
   \<and> (\<forall>br a base64 details img err.
      remoteDetect br base64 = Inr details \<and> loadImage br base64 = Inr img \<and>
      performCrop br base64
        (calculateSmartCrop (case textureBox details of Some t \<Rightarrow> t | None \<Rightarrow> box details)
           (real (naturalWidth img)) (real (naturalHeight img))) 1024 = Inl err \<longrightarrow>
      processImage br a base64
        = a\<lparr>appState := ERROR, garmentDetails := Some details,
             currentCrop :=
               Some (calculateSmartCrop
                       (case textureBox details of Some t \<Rightarrow> t | None \<Rightarrow> box details)
                       (real (naturalWidth img)) (real (naturalHeight img))),
             errorMsg := Some (messageOr err ''Failed to process image.'')\<rparr>)"
  using handleFileUpload_read_failed processImage_detect_failed processImage_decode_failed
        processImage_render_failed
  by blast

text \<open>
  The theorem in the browser whose detection call fails: the attempt ends in the error
  state with the one detection message and nothing else of the state changes.
\<close>

theorem failure_states_witness:
  "processImage noDetectionBrowser
       (initialApp\<lparr>appState := ANALYZING, sourceImage := Some ''data:image/png;base64,photo.png'',
                   originalFileName := ''photo''\<rparr>)
       ''data:image/png;base64,photo.png''
     = initialApp\<lparr>appState := ERROR, sourceImage := Some ''data:image/png;base64,photo.png'',
                  originalFileName := ''photo'',
                  errorMsg :=
                    Some ''Failed to detect garment details. Please try a clearer image.''\<rparr>"
proof -
  have failed: "remoteDetect noDetectionBrowser ''data:image/png;base64,photo.png''
                  = Inl RejectedEvent"
    by (simp add: noDetectionBrowser_def)
  from failure_states [THEN conjunct2, THEN conjunct1, rule_format, OF failed]
  show ?thesis
    by simp
qed

text \<open>
  The \<open>catch\<close> block of \<open>handleManualCropConfirm\<close> sets the message only, where the
  \<open>catch\<close> blocks of \<open>processImage\<close> and \<open>handleFileUpload\<close> also set the error state:
  when the render of a confirmed crop fails, the state stays \<open>CROPPING\<close>, the new
  rectangle is committed and the cropped image is the one of the old rectangle.
\<close>

lemma handleManualCropConfirm_render_failed:
  "sourceImage a = Some src \<Longrightarrow> performCrop br src newCrop 1024 = Inl err \<Longrightarrow>
   handleManualCropConfirm br a newCrop
     = a\<lparr>appState := CROPPING, currentCrop := Some newCrop,
          errorMsg := Some ''Failed to apply manual crop''\<rparr>"
  by (simp add: handleManualCropConfirm_def Let_def)

lemma handleManualCropConfirm_render_failed_example:
  "handleManualCropConfirm noContextBrowser exampleApp
       \<lparr>crop_x = 270, crop_y = 170, crop_size = 300\<rparr>
     = exampleApp\<lparr>appState := CROPPING,
                  currentCrop := Some \<lparr>crop_x = 270, crop_y = 170, crop_size = 300\<rparr>,
                  errorMsg := Some ''Failed to apply manual crop''\<rparr>"
  by (simp add: handleManualCropConfirm_def performCrop_def loadImage_def
        noContextBrowser_def exampleBrowser_def exampleApp_def Let_def)

end
